theory Spec2Isabelle
  imports Complex_Main "HOL-Library.Word" "HOL-Library.Log_Nat"
begin

section \<open>The plugin interface of \<^verbatim>\<open>src/plugin/Plugin.h\<close>\<close>

text \<open>
  The header declares the data a plugin and the plugin manager exchange: the hook types, a
  plugin's version and configuration, the items a plugin declares, and \<open>HookArgument\<close>,
  the tagged value a meta hook receives for each argument of the hook it wraps. What the
  header defines inline is embedded here function by function. What it only declares
  (the bodies live in \<^verbatim>\<open>Plugin.cc\<close> and in the manager) is modelled in the last
  part of the definitions, from the specification.
\<close>

subsection \<open>Machine types\<close>

text \<open>
  A C++ \<open>int\<close> is a 32-bit two's complement word, read with \<open>sint\<close>. A pointer is an
  address; \<open>0\<close> is the null pointer. The header never dereferences one.
\<close>

type_synonym cint = "32 word"
type_synonym addr = nat

text \<open>
  A C++ \<open>double\<close> is an IEEE 754 binary64 value: a sign bit, 11 bits of biased exponent
  and 52 bits of fraction. \<open>double_value\<close> is the real number a finite one denotes
  (\<open>None\<close> for the infinities and the NaNs, whose exponent field is all ones).
\<close>

record double =
  sign :: bool
  exponent :: "11 word"
  fraction :: "52 word"

definition double_value :: "double \<Rightarrow> real option" where
  "double_value d =
     (if unat (exponent d) = 2047 then None
      else if unat (exponent d) = 0 then
        Some ((if sign d then - 1 else 1) * (real (unat (fraction d)) / 2 ^ 52) / 2 ^ 1022)
      else
        Some ((if sign d then - 1 else 1) * (1 + real (unat (fraction d)) / 2 ^ 52)
              * 2 ^ unat (exponent d) / 2 ^ 1023))"

text \<open>
  The implicit conversion from \<open>int\<close> to \<open>double\<close> that \<open>AsInt\<close> performs on its return
  value. The language gives the exact value when the target type has it and the nearest
  one otherwise. The function builds the binary64 encoding whose leading bit is the
  highest set bit of the magnitude: with \<open>e\<close> the position of that bit, the exponent
  field is \<open>1023 + e\<close> and the fraction holds the bits below it, shifted to the top of the
  52-bit field. For a 32-bit magnitude no bit is shifted out, so nothing is rounded.
\<close>

definition int_to_double :: "cint \<Rightarrow> double" where
  "int_to_double a =
     (let i = sint a; m = nat \<bar>i\<bar> in
      if m = 0 then \<lparr>sign = False, exponent = 0, fraction = 0\<rparr>
      else
        let e = floorlog 2 m - 1 in
        \<lparr>sign = (i < 0), exponent = of_nat (1023 + e), fraction = of_nat ((m - 2 ^ e) * 2 ^ (52 - e))\<rparr>)"

subsection \<open>Hook types\<close>

datatype HookType =
    HOOK_LOAD_FILE
  | HOOK_CALL_FUNCTION
  | HOOK_QUEUE_EVENT
  | HOOK_DRAIN_EVENTS
  | HOOK_UPDATE_NETWORK_TIME
  | HOOK_BRO_OBJ_DTOR
  | META_HOOK_PRE
  | META_HOOK_POST
  | NUM_HOOKS

subsection \<open>VersionNumber\<close>

record VersionNumber =
  major :: cint
  minor :: cint

text \<open>The constructor: \<^verbatim>\<open>VersionNumber() { major = minor = -1; }\<close>\<close>

definition VersionNumber_ctor :: VersionNumber where
  "VersionNumber_ctor = \<lparr>major = - 1, minor = - 1\<rparr>"

text \<open>\<^verbatim>\<open>operator bool() const { return major >= 0 && minor >= 0; }\<close>\<close>

definition VersionNumber_bool :: "VersionNumber \<Rightarrow> bool" where
  "VersionNumber_bool v = (0 \<le> sint (major v) \<and> 0 \<le> sint (minor v))"

subsection \<open>Configuration\<close>


record Configuration =
  name :: string
  description :: string
  version :: VersionNumber
  api_version :: cint




subsection \<open>BifItem\<close>

datatype BifItem_Type = FUNCTION | EVENT | CONSTANT | GLOBAL | TYPE'

text \<open>The enumerators carry explicit values, \<open>FUNCTION = 1\<close> to \<open>TYPE = 5\<close>.\<close>

fun BifItem_Type_value :: "BifItem_Type \<Rightarrow> cint" where
  "BifItem_Type_value FUNCTION = 1"
| "BifItem_Type_value BifItem_Type.EVENT = 2"
| "BifItem_Type_value CONSTANT = 3"
| "BifItem_Type_value GLOBAL = 4"
| "BifItem_Type_value TYPE' = 5"

record BifItem =
  bif_id :: string
  bif_type :: BifItem_Type

definition BifItem_GetID :: "BifItem \<Rightarrow> string" where
  "BifItem_GetID b = bif_id b"

definition BifItem_GetType :: "BifItem \<Rightarrow> BifItem_Type" where
  "BifItem_GetType b = bif_type b"

subsection \<open>HookArgument\<close>

datatype HookArgument_Type =
  BOOL | DOUBLE | EVENT | FRAME | FUNC | FUNC_RESULT | INT' | STRING | VAL | VAL_LIST | VOID | VOIDP

text \<open>
  The anonymous union \<open>arg\<close>: one constructor per member, holding what was last written,
  and \<open>indeterminate\<close> for a union no constructor of \<open>HookArgument\<close> has written.
\<close>

datatype arg_union =
    indeterminate
  | bool' bool
  | double' double
  | event addr
  | func addr
  | frame addr
  | int' cint
  | val addr
  | vals addr
  | voidp addr

record HookArgument =
  type :: HookArgument_Type
  arg :: arg_union
  func_result :: "bool \<times> addr"
  arg_string :: string

text \<open>
  The two members outside the union are default-initialised by every constructor that
  does not assign them: the pair to \<open>(false, nullptr)\<close>, the string to the empty string.
\<close>

definition HookArgument_default :: HookArgument where
  "HookArgument_default =
     \<lparr>type = VOID, arg = indeterminate, func_result = (False, 0), arg_string = []\<rparr>"

definition HookArgument_bool :: "bool \<Rightarrow> HookArgument" where
  "HookArgument_bool a =
     \<lparr>type = BOOL, arg = bool' a, func_result = (False, 0), arg_string = []\<rparr>"

definition HookArgument_double :: "double \<Rightarrow> HookArgument" where
  "HookArgument_double a =
     \<lparr>type = DOUBLE, arg = double' a, func_result = (False, 0), arg_string = []\<rparr>"

definition HookArgument_event :: "addr \<Rightarrow> HookArgument" where
  "HookArgument_event a =
     \<lparr>type = EVENT, arg = event a, func_result = (False, 0), arg_string = []\<rparr>"

definition HookArgument_func :: "addr \<Rightarrow> HookArgument" where
  "HookArgument_func a =
     \<lparr>type = FUNC, arg = func a, func_result = (False, 0), arg_string = []\<rparr>"

definition HookArgument_int :: "cint \<Rightarrow> HookArgument" where
  "HookArgument_int a =
     \<lparr>type = INT', arg = int' a, func_result = (False, 0), arg_string = []\<rparr>"

definition HookArgument_string :: "string \<Rightarrow> HookArgument" where
  "HookArgument_string a =
     \<lparr>type = STRING, arg = indeterminate, func_result = (False, 0), arg_string = a\<rparr>"

definition HookArgument_val :: "addr \<Rightarrow> HookArgument" where
  "HookArgument_val a =
     \<lparr>type = VAL, arg = val a, func_result = (False, 0), arg_string = []\<rparr>"

definition HookArgument_val_list :: "addr \<Rightarrow> HookArgument" where
  "HookArgument_val_list a =
     \<lparr>type = VAL_LIST, arg = vals a, func_result = (False, 0), arg_string = []\<rparr>"

definition HookArgument_voidp :: "addr \<Rightarrow> HookArgument" where
  "HookArgument_voidp p =
     \<lparr>type = VOIDP, arg = voidp p, func_result = (False, 0), arg_string = []\<rparr>"

definition HookArgument_func_result :: "bool \<times> addr \<Rightarrow> HookArgument" where
  "HookArgument_func_result fresult =
     \<lparr>type = FUNC_RESULT, arg = indeterminate, func_result = fresult, arg_string = []\<rparr>"

definition HookArgument_frame :: "addr \<Rightarrow> HookArgument" where
  "HookArgument_frame f =
     \<lparr>type = FRAME, arg = frame f, func_result = (False, 0), arg_string = []\<rparr>"

text \<open>
  An accessor is \<^verbatim>\<open>assert(type == X); return member;\<close>. The \<open>assert\<close> macro checks its
  condition only in a build that does not define \<^verbatim>\<open>NDEBUG\<close>; with \<^verbatim>\<open>NDEBUG\<close> it
  expands to nothing. The build is therefore a parameter of every accessor.
\<close>

datatype build = assertions_on | NDEBUG

definition assert_fails :: "build \<Rightarrow> bool \<Rightarrow> bool" where
  "assert_fails bd cond = (bd = assertions_on \<and> \<not> cond)"

text \<open>
  A failed assertion aborts the program: \<open>Inl AssertionFailed\<close>. Otherwise the accessor
  reads its member and returns. Reading a member of the union other than the one last
  written is not an abort, but the language defines no value for what is read:
  \<open>Inl InactiveMember\<close>. The two members outside the union always hold a value.
\<close>

datatype fault = AssertionFailed | InactiveMember

definition AsBool :: "build \<Rightarrow> HookArgument \<Rightarrow> fault + bool" where
  "AsBool bd h =
     (if assert_fails bd (type h = BOOL) then Inl AssertionFailed
      else (case arg h of bool' b \<Rightarrow> Inr b | _ \<Rightarrow> Inl InactiveMember))"

definition AsDouble :: "build \<Rightarrow> HookArgument \<Rightarrow> fault + double" where
  "AsDouble bd h =
     (if assert_fails bd (type h = DOUBLE) then Inl AssertionFailed
      else (case arg h of double' d \<Rightarrow> Inr d | _ \<Rightarrow> Inl InactiveMember))"

definition AsEvent :: "build \<Rightarrow> HookArgument \<Rightarrow> fault + addr" where
  "AsEvent bd h =
     (if assert_fails bd (type h = EVENT) then Inl AssertionFailed
      else (case arg h of event p \<Rightarrow> Inr p | _ \<Rightarrow> Inl InactiveMember))"

definition AsFunc :: "build \<Rightarrow> HookArgument \<Rightarrow> fault + addr" where
  "AsFunc bd h =
     (if assert_fails bd (type h = FUNC) then Inl AssertionFailed
      else (case arg h of func p \<Rightarrow> Inr p | _ \<Rightarrow> Inl InactiveMember))"

text \<open>\<open>AsInt\<close> is declared \<^verbatim>\<open>double AsInt() const\<close>: the \<open>int\<close> member is converted on return.\<close>

definition AsInt :: "build \<Rightarrow> HookArgument \<Rightarrow> fault + double" where
  "AsInt bd h =
     (if assert_fails bd (type h = INT') then Inl AssertionFailed
      else (case arg h of int' i \<Rightarrow> Inr (int_to_double i) | _ \<Rightarrow> Inl InactiveMember))"

definition AsString :: "build \<Rightarrow> HookArgument \<Rightarrow> fault + string" where
  "AsString bd h =
     (if assert_fails bd (type h = STRING) then Inl AssertionFailed else Inr (arg_string h))"

definition AsVal :: "build \<Rightarrow> HookArgument \<Rightarrow> fault + addr" where
  "AsVal bd h =
     (if assert_fails bd (type h = VAL) then Inl AssertionFailed
      else (case arg h of val p \<Rightarrow> Inr p | _ \<Rightarrow> Inl InactiveMember))"

definition AsFuncResult :: "build \<Rightarrow> HookArgument \<Rightarrow> fault + bool \<times> addr" where
  "AsFuncResult bd h =
     (if assert_fails bd (type h = FUNC_RESULT) then Inl AssertionFailed
      else Inr (func_result h))"

definition AsFrame :: "build \<Rightarrow> HookArgument \<Rightarrow> fault + addr" where
  "AsFrame bd h =
     (if assert_fails bd (type h = FRAME) then Inl AssertionFailed
      else (case arg h of frame p \<Rightarrow> Inr p | _ \<Rightarrow> Inl InactiveMember))"

definition AsValList :: "build \<Rightarrow> HookArgument \<Rightarrow> fault + addr" where
  "AsValList bd h =
     (if assert_fails bd (type h = VAL_LIST) then Inl AssertionFailed
      else (case arg h of vals p \<Rightarrow> Inr p | _ \<Rightarrow> Inl InactiveMember))"

definition AsVoidPtr :: "build \<Rightarrow> HookArgument \<Rightarrow> fault + addr" where
  "AsVoidPtr bd h =
     (if assert_fails bd (type h = VOIDP) then Inl AssertionFailed
      else (case arg h of voidp p \<Rightarrow> Inr p | _ \<Rightarrow> Inl InactiveMember))"

definition GetType :: "HookArgument \<Rightarrow> HookArgument_Type" where
  "GetType h = type h"

section \<open>What the header only declares\<close>

text \<open>
  The header declares \<open>BifItem\<close>'s constructor, \<open>Plugin\<close>'s methods and the hook methods, and
  names the manager as a friend; their bodies are in \<^verbatim>\<open>Plugin.cc\<close> and in the manager's
  files. The definitions of this section follow the specification's description of them,
  on the types the header fixes.
\<close>

subsection \<open>The plugin's own lists\<close>

text \<open>The private members of \<open>Plugin\<close>, as the header lists them.\<close>

record Plugin =
  config :: Configuration
  base_dir :: string
  sopath :: string
  dynamic :: bool
  components :: "addr list"
  bif_items :: "BifItem list"

definition BifItem_ctor :: "string \<Rightarrow> BifItem_Type \<Rightarrow> BifItem" where
  \<comment> \<open>Modelled from the spec: the body of \<open>BifItem::BifItem(id, type)\<close> is missing; an item
      is the pair of the id and the kind it was built from.\<close>
  "BifItem_ctor i t = \<lparr>bif_id = i, bif_type = t\<rparr>"

definition AddBifItem :: "Plugin \<Rightarrow> string \<Rightarrow> BifItem_Type \<Rightarrow> Plugin" where
  \<comment> \<open>Modelled from the spec: the body of \<open>Plugin::AddBifItem\<close> is missing; it appends the
      item to the declared-items list and registers nothing else.\<close>
  "AddBifItem p n t = p\<lparr>bif_items := bif_items p @ [BifItem_ctor n t]\<rparr>"

definition BifItems :: "Plugin \<Rightarrow> BifItem list" where
  \<comment> \<open>Modelled from the spec: the body of \<open>Plugin::BifItems\<close> is missing; it returns the
      declared-items list.\<close>
  "BifItems p = bif_items p"

subsection \<open>The hook registry\<close>

text \<open>
  The registry keeps, for each hook type, the plugins enabled for it with their
  priorities, highest priority first. A plugin is known by the address of its object.
\<close>

type_synonym registry = "HookType \<Rightarrow> (cint \<times> addr) list"

text \<open>The return type of \<open>EnabledHooks\<close>, from the header: pairs of hook type and priority.\<close>

type_synonym hook_list = "(HookType \<times> cint) list"

definition no_hooks :: registry where
  \<comment> \<open>Modelled from the spec: the registry before any plugin has enabled a hook.\<close>
  "no_hooks = (\<lambda>h. [])"

definition remove_plugin :: "addr \<Rightarrow> (cint \<times> addr) list \<Rightarrow> (cint \<times> addr) list" where
  \<comment> \<open>Modelled from the spec: the manager's list handling is missing; this drops a
      plugin's entry from one hook's list.\<close>
  "remove_plugin p l = filter (\<lambda>e. snd e \<noteq> p) l"

fun insert_by_priority :: "cint \<times> addr \<Rightarrow> (cint \<times> addr) list \<Rightarrow> (cint \<times> addr) list" where
  \<comment> \<open>Modelled from the spec: the manager's list handling is missing; the new entry goes
      before the first entry of strictly lower priority, which keeps a descending list
      descending. The order among equal priorities is left open by the specification;
      here a new entry goes after the ones already there.\<close>
  "insert_by_priority x [] = [x]"
| "insert_by_priority x (y # ys) =
     (if sint (fst y) < sint (fst x) then x # y # ys else y # insert_by_priority x ys)"

definition EnableHook :: "registry \<Rightarrow> addr \<Rightarrow> HookType \<Rightarrow> cint \<Rightarrow> registry" where
  \<comment> \<open>Modelled from the spec: the body of \<open>Plugin::EnableHook\<close> and the manager behind it
      are missing; a plugin has at most one priority per hook, and enabling again
      replaces it.\<close>
  "EnableHook reg p h prio = reg(h := insert_by_priority (prio, p) (remove_plugin p (reg h)))"

definition DisableHook :: "registry \<Rightarrow> addr \<Rightarrow> HookType \<Rightarrow> registry" where
  \<comment> \<open>Modelled from the spec: the body of \<open>Plugin::DisableHook\<close> and the manager behind it
      are missing; the plugin's entry for the hook is removed.\<close>
  "DisableHook reg p h = reg(h := remove_plugin p (reg h))"

text \<open>The hook types proper; \<open>NUM_HOOKS\<close> is the enumeration's end marker.\<close>

definition all_hooks :: "HookType list" where
  "all_hooks =
     [HOOK_LOAD_FILE, HOOK_CALL_FUNCTION, HOOK_QUEUE_EVENT, HOOK_DRAIN_EVENTS,
      HOOK_UPDATE_NETWORK_TIME, HOOK_BRO_OBJ_DTOR, META_HOOK_PRE, META_HOOK_POST]"

definition EnabledHooks :: "registry \<Rightarrow> addr \<Rightarrow> hook_list" where
  \<comment> \<open>Modelled from the spec: the body of \<open>Plugin::EnabledHooks\<close> and the manager behind it
      are missing; the result is the snapshot of this plugin's pairs of hook and
      priority.\<close>
  "EnabledHooks reg p =
     concat (map (\<lambda>h. map (\<lambda>e. (h, fst e)) (filter (\<lambda>e. snd e = p) (reg h))) all_hooks)"

text \<open>The registry states a run can reach: any sequence of enabling and disabling.\<close>

datatype registry_op = Enable addr HookType cint | Disable addr HookType

fun apply_registry_op :: "registry \<Rightarrow> registry_op \<Rightarrow> registry" where
  "apply_registry_op reg (Enable p h prio) = EnableHook reg p h prio"
| "apply_registry_op reg (Disable p h) = DisableHook reg p h"

definition registry_after :: "registry_op list \<Rightarrow> registry" where
  "registry_after ops = foldl apply_registry_op no_hooks ops"

text \<open>
  The order the registry keeps in each list: priorities descend (read as signed), and no
  plugin stands in a list twice.
\<close>

definition well_ordered :: "(cint \<times> addr) list \<Rightarrow> bool" where
  "well_ordered l = (sorted_wrt (\<lambda>a b. sint (fst b) \<le> sint (fst a)) l \<and> distinct (map snd l))"

text \<open>The entries of a snapshot for one hook type.\<close>

definition entries_for :: "HookType \<Rightarrow> hook_list \<Rightarrow> hook_list" where
  "entries_for h l = filter (\<lambda>e. fst e = h) l"

subsection \<open>The dispatcher\<close>

text \<open>
  The hook methods a plugin can override that return a result, with the signatures of
  the header. The three notifications (\<open>HookDrainEvents\<close>, \<open>HookUpdateNetworkTime\<close>,
  \<open>HookBroObjDtor\<close>) return nothing, so only the fact that they were called is recorded.
  A method's result is a function of its arguments here.
\<close>

record plugin_methods =
  HookLoadFile :: "string \<Rightarrow> string \<Rightarrow> cint"
  HookCallFunction :: "addr \<Rightarrow> addr \<Rightarrow> addr \<Rightarrow> bool \<times> addr"
  HookQueueEvent :: "addr \<Rightarrow> bool"

text \<open>One occurrence of an extension point, with the hook's actual parameters.\<close>

datatype hook_call =
    LoadFile string string
  | CallFunction addr addr addr
  | QueueEvent addr
  | DrainEvents
  | UpdateNetworkTime double
  | BroObjDtor addr

fun hook_of :: "hook_call \<Rightarrow> HookType" where
  "hook_of (LoadFile file ext) = HOOK_LOAD_FILE"
| "hook_of (CallFunction fn parent args) = HOOK_CALL_FUNCTION"
| "hook_of (QueueEvent ev) = HOOK_QUEUE_EVENT"
| "hook_of DrainEvents = HOOK_DRAIN_EVENTS"
| "hook_of (UpdateNetworkTime t) = HOOK_UPDATE_NETWORK_TIME"
| "hook_of (BroObjDtor obj) = HOOK_BRO_OBJ_DTOR"

fun hook_args :: "hook_call \<Rightarrow> HookArgument list" where
  \<comment> \<open>Modelled from the spec: the manager is missing; the argument list of the meta hooks
      is built from the hook's actual parameters.\<close>
  "hook_args (LoadFile file ext) = [HookArgument_string file, HookArgument_string ext]"
| "hook_args (CallFunction fn parent args) =
     [HookArgument_func fn, HookArgument_frame parent, HookArgument_val_list args]"
| "hook_args (QueueEvent ev) = [HookArgument_event ev]"
| "hook_args DrainEvents = []"
| "hook_args (UpdateNetworkTime t) = [HookArgument_double t]"
| "hook_args (BroObjDtor obj) = [HookArgument_voidp obj]"

fun default_result :: "hook_call \<Rightarrow> HookArgument" where
  \<comment> \<open>Modelled from the spec: the manager is missing; the result when no plugin handled
      the hook is "not interested" (-1), "not handled" (false), or of type VOID for a
      hook without a result.\<close>
  "default_result (LoadFile file ext) = HookArgument_int (- 1)"
| "default_result (CallFunction fn parent args) = HookArgument_func_result (False, 0)"
| "default_result (QueueEvent ev) = HookArgument_bool False"
| "default_result DrainEvents = HookArgument_default"
| "default_result (UpdateNetworkTime t) = HookArgument_default"
| "default_result (BroObjDtor obj) = HookArgument_default"

fun offer :: "plugin_methods \<Rightarrow> hook_call \<Rightarrow> HookArgument option" where
  \<comment> \<open>Modelled from the spec: the manager is missing; a plugin's hook method is called
      and its result read: \<open>Some\<close> the result when it claims the occurrence (a load result
      other than -1, a handled call, a taken event), \<open>None\<close> when it does not. A
      notification claims nothing.\<close>
  "offer m (LoadFile file ext) =
     (let rc = HookLoadFile m file ext in if rc = - 1 then None else Some (HookArgument_int rc))"
| "offer m (CallFunction fn parent args) =
     (let r = HookCallFunction m fn parent args in
      if fst r then Some (HookArgument_func_result r) else None)"
| "offer m (QueueEvent ev) =
     (if HookQueueEvent m ev then Some (HookArgument_bool True) else None)"
| "offer m DrainEvents = None"
| "offer m (UpdateNetworkTime t) = None"
| "offer m (BroObjDtor obj) = None"

text \<open>What the dispatcher does, in order: the calls it makes on plugins.\<close>

datatype call_event =
    MetaHookPre_called addr HookType "HookArgument list"
  | Hook_called addr hook_call
  | MetaHookPost_called addr HookType "HookArgument list" HookArgument

fun offer_in_order ::
  "(addr \<Rightarrow> plugin_methods) \<Rightarrow> hook_call \<Rightarrow> (cint \<times> addr) list \<Rightarrow> call_event list \<times> HookArgument" where
  \<comment> \<open>Modelled from the spec: the manager is missing; the hook method is called on each
      enabled plugin in the list's order until one returns a claiming result.\<close>
  "offer_in_order impl c [] = ([], default_result c)"
| "offer_in_order impl c (e # es) =
     (case offer (impl (snd e)) c of
        Some r \<Rightarrow> ([Hook_called (snd e) c], r)
      | None \<Rightarrow>
          (let rest = offer_in_order impl c es in (Hook_called (snd e) c # fst rest, snd rest)))"

definition dispatch ::
  "registry \<Rightarrow> (addr \<Rightarrow> plugin_methods) \<Rightarrow> hook_call \<Rightarrow> call_event list \<times> HookArgument" where
  \<comment> \<open>Modelled from the spec: the manager is missing; for one occurrence it calls
      \<open>MetaHookPre\<close> on every plugin enabled for \<open>META_HOOK_PRE\<close>, then the hook methods, then
      \<open>MetaHookPost\<close> with the final result on every plugin enabled for \<open>META_HOOK_POST\<close>.\<close>
  "dispatch reg impl c =
     (let pre = map (\<lambda>e. MetaHookPre_called (snd e) (hook_of c) (hook_args c)) (reg META_HOOK_PRE);
          hooks = offer_in_order impl c (reg (hook_of c));
          post = map (\<lambda>e. MetaHookPost_called (snd e) (hook_of c) (hook_args c) (snd hooks))
                   (reg META_HOOK_POST)
      in (pre @ fst hooks @ post, snd hooks))"

text \<open>Reading a trace: the plugins whose hook method ran, and what one plugin's meta hooks saw.\<close>

fun hook_calls :: "call_event list \<Rightarrow> addr list" where
  "hook_calls [] = []"
| "hook_calls (Hook_called p c # t) = p # hook_calls t"
| "hook_calls (ev # t) = hook_calls t"

fun pre_calls_to :: "addr \<Rightarrow> call_event list \<Rightarrow> (HookType \<times> HookArgument list) list" where
  "pre_calls_to m [] = []"
| "pre_calls_to m (MetaHookPre_called p h args # t) =
     (if p = m then (h, args) # pre_calls_to m t else pre_calls_to m t)"
| "pre_calls_to m (ev # t) = pre_calls_to m t"

fun post_calls_to ::
  "addr \<Rightarrow> call_event list \<Rightarrow> (HookType \<times> HookArgument list \<times> HookArgument) list" where
  "post_calls_to m [] = []"
| "post_calls_to m (MetaHookPost_called p h args r # t) =
     (if p = m then (h, args, r) # post_calls_to m t else post_calls_to m t)"
| "post_calls_to m (ev # t) = post_calls_to m t"

section \<open>Properties of the code in the header\<close>

lemmas HookArgument_ctor_defs =
  HookArgument_default_def HookArgument_bool_def HookArgument_double_def HookArgument_event_def
  HookArgument_func_def HookArgument_int_def HookArgument_string_def HookArgument_val_def
  HookArgument_val_list_def HookArgument_voidp_def HookArgument_func_result_def
  HookArgument_frame_def

lemmas accessor_defs =
  AsBool_def AsDouble_def AsEvent_def AsFunc_def AsInt_def AsString_def AsVal_def
  AsFuncResult_def AsFrame_def AsValList_def AsVoidPtr_def

subsection \<open>Every 32-bit integer is a double\<close>

text \<open>
  The magnitude of an \<open>int\<close> is at most \<open>2 ^ 31\<close>, so its highest set bit is at position 31
  or below, and the bits under it fit the 52-bit fraction.
\<close>

lemma magnitude_bound: "nat \<bar>sint (a :: cint)\<bar> \<le> 2 ^ 31"
proof -
  have "- (2 ^ 31) \<le> sint a" "sint a < 2 ^ 31"
    using sint_ge [of a] sint_lt [of a] by simp_all
  then show ?thesis by (simp add: nat_le_iff abs_le_iff)
qed

lemma leading_bit:
  assumes "0 < m" "m \<le> 2 ^ 31"
  shows "2 ^ (floorlog 2 m - 1) \<le> m \<and> m < 2 * 2 ^ (floorlog 2 m - 1) \<and> floorlog 2 m - 1 \<le> 31"
proof -
  let ?e = "floorlog 2 m - 1"
  have b: "2 ^ ?e \<le> m \<and> m < 2 ^ floorlog 2 m"
    using floorlog_bounds [of m 2] assms(1) by simp
  have pos: "0 < floorlog 2 m"
    using assms(1) by (simp add: floorlog_def)
  then have "floorlog 2 m = Suc ?e" by simp
  then have "(2::nat) ^ floorlog 2 m = 2 * 2 ^ ?e" by (metis power_Suc)
  moreover have "?e \<le> 31"
  proof -
    have "(2::nat) ^ ?e \<le> 2 ^ 31" using b assms(2) by linarith
    then show ?thesis by (rule power_le_imp_le_exp [rotated]) simp
  qed
  ultimately show ?thesis using b by simp
qed

lemma scaled_significand:
  fixes x p q k :: real
  assumes "p \<noteq> 0" "q \<noteq> 0" "k \<noteq> 0"
  shows "(1 + (x - p) * q / (p * q)) * (k * p) / k = x"
  using assms by (simp add: field_simps)

lemma double_value_normal:
  assumes "unat x = n" "0 < n" "n < 2047" "unat f = k"
  shows "double_value \<lparr>sign = s, exponent = x, fraction = f\<rparr> =
    Some ((if s then - 1 else 1) * ((1 + real k / 2 ^ 52) * 2 ^ n / 2 ^ 1023))"
  using assms by (simp add: double_value_def)

lemma sign_and_magnitude: "real_of_int i = (if i < 0 then - 1 else 1) * real (nat \<bar>i\<bar>)"
  by simp

lemma int_to_double_value: "double_value (int_to_double a) = Some (real_of_int (sint a))"
proof (cases "sint a = 0")
  case True
  then show ?thesis by (simp add: int_to_double_def double_value_def)
next
  case False
  define m where "m = nat \<bar>sint a\<bar>"
  define e where "e = floorlog 2 m - 1"
  have m: "0 < m" "m \<le> 2 ^ 31"
    using False magnitude_bound [of a] by (simp_all add: m_def)
  have e: "2 ^ e \<le> m" "m < 2 * 2 ^ e" "e \<le> 31"
    using leading_bit [OF m] by (simp_all add: e_def)
  have ex: "unat (of_nat (1023 + e) :: 11 word) = 1023 + e"
    using e(3) by (intro of_nat_inverse [OF refl]) simp
  have "(m - 2 ^ e) * 2 ^ (52 - e) < 2 ^ e * 2 ^ (52 - e)"
    using e(1,2) by (intro mult_strict_right_mono) simp_all
  also have "(2::nat) ^ e * 2 ^ (52 - e) = 2 ^ 52"
    using e(3) by (simp flip: power_add)
  finally have fr:
    "unat (of_nat ((m - 2 ^ e) * 2 ^ (52 - e)) :: 52 word) = (m - 2 ^ e) * 2 ^ (52 - e)"
    by (intro of_nat_inverse [OF refl]) simp
  have mag: "(1 + real ((m - 2 ^ e) * 2 ^ (52 - e)) / 2 ^ 52) * 2 ^ (1023 + e) / 2 ^ 1023 = real m"
  proof -
    have a: "real ((m - 2 ^ e) * 2 ^ (52 - e)) = (real m - 2 ^ e) * 2 ^ (52 - e)"
      using e(1) by (simp add: of_nat_diff)
    have b: "(2::real) ^ 52 = 2 ^ e * 2 ^ (52 - e)"
      using e(3) by (simp only: power_add [symmetric]) simp
    have c: "(2::real) ^ (1023 + e) = 2 ^ 1023 * 2 ^ e"
      by (rule power_add)
    show ?thesis
      unfolding a b c by (rule scaled_significand) simp_all
  qed
  have val: "real_of_int (sint a) = (if sint a < 0 then - 1 else 1) * real m"
    unfolding m_def by (rule sign_and_magnitude)
  have enc: "int_to_double a =
      \<lparr>sign = (sint a < 0), exponent = of_nat (1023 + e), fraction = of_nat ((m - 2 ^ e) * 2 ^ (52 - e))\<rparr>"
  proof -
    have "m \<noteq> 0" using m(1) by simp
    then show ?thesis
      unfolding int_to_double_def Let_def m_def [symmetric] e_def [symmetric]
      by (simp only: if_False)
  qed
  have "double_value (int_to_double a) = Some ((if sint a < 0 then - 1 else 1) *
      ((1 + real ((m - 2 ^ e) * 2 ^ (52 - e)) / 2 ^ 52) * 2 ^ (1023 + e) / 2 ^ 1023))"
    unfolding enc using e(3) by (intro double_value_normal ex fr) simp_all
  then show ?thesis by (simp only: mag val)
qed

lemma int_to_double_inj: "(int_to_double a = int_to_double b) = (a = b)"
proof
  assume "int_to_double a = int_to_double b"
  then have "double_value (int_to_double a) = double_value (int_to_double b)" by simp
  then have "sint a = sint b" by (simp only: int_to_double_value option.inject of_int_eq_iff)
  then show "a = b" by (rule signed_word_eqI)
qed simp

subsection \<open>HookArgument\<close>

text \<open>
  C1, as stated, promises a failed assertion in every build. In a build with
  \<^verbatim>\<open>NDEBUG\<close> the accessors check nothing: on the argument built from the integer 42,
  \<open>AsString\<close> returns the empty string and \<open>AsFuncResult\<close> the pair \<open>(false, nullptr)\<close>, the
  values the two members were default-initialised to, and \<open>AsBool\<close> does not fail an
  assertion either.
\<close>

theorem wrong_tag_returns_under_NDEBUG:
  "type (HookArgument_int 42) = INT'
 \<and> AsString NDEBUG (HookArgument_int 42) = Inr []
 \<and> AsFuncResult NDEBUG (HookArgument_int 42) = Inr (False, 0)
 \<and> AsBool NDEBUG (HookArgument_int 42) \<noteq> Inl AssertionFailed"
  by (simp add: AsString_def AsFuncResult_def AsBool_def assert_fails_def HookArgument_int_def)

text \<open>
  C1, amended. In a build with assertions enabled, every accessor \<open>AsX\<close> answers only
  under the tag \<open>X\<close>: under any other tag the call is a failed assertion, never a value. In
  particular \<open>AsBool\<close> on an argument built from an \<open>int\<close> is a failed assertion there.
\<close>

theorem accessor_wrong_tag_faults:
  "(type h \<noteq> BOOL \<longrightarrow> AsBool assertions_on h = Inl AssertionFailed)
 \<and> (type h \<noteq> DOUBLE \<longrightarrow> AsDouble assertions_on h = Inl AssertionFailed)
 \<and> (type h \<noteq> EVENT \<longrightarrow> AsEvent assertions_on h = Inl AssertionFailed)
 \<and> (type h \<noteq> FUNC \<longrightarrow> AsFunc assertions_on h = Inl AssertionFailed)
 \<and> (type h \<noteq> INT' \<longrightarrow> AsInt assertions_on h = Inl AssertionFailed)
 \<and> (type h \<noteq> STRING \<longrightarrow> AsString assertions_on h = Inl AssertionFailed)
 \<and> (type h \<noteq> VAL \<longrightarrow> AsVal assertions_on h = Inl AssertionFailed)
 \<and> (type h \<noteq> FUNC_RESULT \<longrightarrow> AsFuncResult assertions_on h = Inl AssertionFailed)
 \<and> (type h \<noteq> FRAME \<longrightarrow> AsFrame assertions_on h = Inl AssertionFailed)
 \<and> (type h \<noteq> VAL_LIST \<longrightarrow> AsValList assertions_on h = Inl AssertionFailed)
 \<and> (type h \<noteq> VOIDP \<longrightarrow> AsVoidPtr assertions_on h = Inl AssertionFailed)
 \<and> AsBool assertions_on (HookArgument_int a) = Inl AssertionFailed"
  by (simp add: accessor_defs assert_fails_def HookArgument_int_def)

text \<open>
  The theorem at an argument built from the integer 42, whose tag differs from that of
  every accessor but \<open>AsInt\<close>, and at one built from \<open>true\<close> for \<open>AsInt\<close>.
\<close>

theorem accessor_wrong_tag_faults_witness:
  "type (HookArgument_int 42) = INT'
 \<and> AsBool assertions_on (HookArgument_int 42) = Inl AssertionFailed
 \<and> AsDouble assertions_on (HookArgument_int 42) = Inl AssertionFailed
 \<and> AsEvent assertions_on (HookArgument_int 42) = Inl AssertionFailed
 \<and> AsFunc assertions_on (HookArgument_int 42) = Inl AssertionFailed
 \<and> AsString assertions_on (HookArgument_int 42) = Inl AssertionFailed
 \<and> AsVal assertions_on (HookArgument_int 42) = Inl AssertionFailed
 \<and> AsFuncResult assertions_on (HookArgument_int 42) = Inl AssertionFailed
 \<and> AsFrame assertions_on (HookArgument_int 42) = Inl AssertionFailed
 \<and> AsValList assertions_on (HookArgument_int 42) = Inl AssertionFailed
 \<and> AsVoidPtr assertions_on (HookArgument_int 42) = Inl AssertionFailed
 \<and> type (HookArgument_bool True) = BOOL
 \<and> AsInt assertions_on (HookArgument_bool True) = Inl AssertionFailed"
  using accessor_wrong_tag_faults [of "HookArgument_int 42" 42]
    accessor_wrong_tag_faults [of "HookArgument_bool True" 42]
  by (simp add: HookArgument_int_def HookArgument_bool_def)

text \<open>
  C5. Construct, then access: for each payload type, the argument built from a value \<open>v\<close>
  has that type's tag, and the matching accessor returns \<open>v\<close>, in either build. For \<open>int\<close>
  the accessor returns a \<open>double\<close>: it is the double whose value is \<open>v\<close>.
\<close>

theorem construct_then_access:
  "GetType (HookArgument_bool b) = BOOL \<and> AsBool bd (HookArgument_bool b) = Inr b
 \<and> GetType (HookArgument_double d) = DOUBLE \<and> AsDouble bd (HookArgument_double d) = Inr d
 \<and> GetType (HookArgument_event ev) = EVENT \<and> AsEvent bd (HookArgument_event ev) = Inr ev
 \<and> GetType (HookArgument_func fn) = FUNC \<and> AsFunc bd (HookArgument_func fn) = Inr fn
 \<and> GetType (HookArgument_int i) = INT' \<and> AsInt bd (HookArgument_int i) = Inr (int_to_double i)
 \<and> double_value (int_to_double i) = Some (real_of_int (sint i))
 \<and> GetType (HookArgument_string s) = STRING \<and> AsString bd (HookArgument_string s) = Inr s
 \<and> GetType (HookArgument_val v) = VAL \<and> AsVal bd (HookArgument_val v) = Inr v
 \<and> GetType (HookArgument_val_list vl) = VAL_LIST
 \<and> AsValList bd (HookArgument_val_list vl) = Inr vl
 \<and> GetType (HookArgument_voidp p) = VOIDP \<and> AsVoidPtr bd (HookArgument_voidp p) = Inr p
 \<and> GetType (HookArgument_func_result fr) = FUNC_RESULT
 \<and> AsFuncResult bd (HookArgument_func_result fr) = Inr fr
 \<and> GetType (HookArgument_frame f) = FRAME \<and> AsFrame bd (HookArgument_frame f) = Inr f"
proof -
  have "double_value (int_to_double i) = Some (real_of_int (sint i))"
    by (rule int_to_double_value)
  then show ?thesis
    by (simp only: GetType_def HookArgument_ctor_defs accessor_defs assert_fails_def) simp
qed

text \<open>
  C8. \<open>AsInt\<close> returns a \<open>double\<close>: on an argument built from the \<open>int\<close> \<open>a\<close> it returns \<open>a\<close>
  converted, in either build. The conversion keeps the value of every \<open>int\<close>, so two
  arguments give the same answer only when they were built from the same \<open>int\<close>.
\<close>

theorem AsInt_keeps_value:
  "AsInt bd (HookArgument_int a) = Inr (int_to_double a)
 \<and> double_value (int_to_double a) = Some (real_of_int (sint a))
 \<and> (AsInt bd (HookArgument_int a) = AsInt bd (HookArgument_int b)) = (a = b)"
proof -
  have r: "AsInt bd (HookArgument_int x) = Inr (int_to_double x)" for x
    by (simp add: AsInt_def assert_fails_def HookArgument_int_def)
  show ?thesis
    by (simp only: r int_to_double_value int_to_double_inj sum.inject simp_thms)
qed

text \<open>
  C9. The argument built by the constructor without parameters has the tag \<open>VOID\<close> and no
  payload: its union was never written, its tag is the tag of no accessor, and with
  assertions enabled every accessor is a failed assertion on it.
\<close>

theorem default_argument_is_void:
  "GetType HookArgument_default = VOID
 \<and> AsBool assertions_on HookArgument_default = Inl AssertionFailed
 \<and> AsDouble assertions_on HookArgument_default = Inl AssertionFailed
 \<and> AsEvent assertions_on HookArgument_default = Inl AssertionFailed
 \<and> AsFunc assertions_on HookArgument_default = Inl AssertionFailed
 \<and> AsInt assertions_on HookArgument_default = Inl AssertionFailed
 \<and> AsString assertions_on HookArgument_default = Inl AssertionFailed
 \<and> AsVal assertions_on HookArgument_default = Inl AssertionFailed
 \<and> AsFuncResult assertions_on HookArgument_default = Inl AssertionFailed
 \<and> AsFrame assertions_on HookArgument_default = Inl AssertionFailed
 \<and> AsValList assertions_on HookArgument_default = Inl AssertionFailed
 \<and> AsVoidPtr assertions_on HookArgument_default = Inl AssertionFailed
 \<and> arg HookArgument_default = indeterminate
 \<and> GetType HookArgument_default \<notin>
       set [BOOL, DOUBLE, EVENT, FUNC, INT', STRING, VAL, FUNC_RESULT, FRAME, VAL_LIST, VOIDP]"
  by (simp add: GetType_def HookArgument_default_def accessor_defs assert_fails_def)

subsection \<open>VersionNumber\<close>

text \<open>
  C7, as stated, says a version is unset exactly when both numbers are negative. With a
  non-negative major and a negative minor number the conversion to \<open>bool\<close> says "not set",
  yet the two are not both negative.
\<close>

theorem unset_with_one_negative_field:
  "\<not> VersionNumber_bool \<lparr>major = 1, minor = - 1\<rparr>
 \<and> \<not> (sint (major \<lparr>major = 1, minor = - 1 :: cint\<rparr>) < 0
      \<and> sint (minor \<lparr>major = 1 :: cint, minor = - 1\<rparr>) < 0)"
  by (simp add: VersionNumber_bool_def)

text \<open>
  C7, amended. A version is unset (its conversion to \<open>bool\<close> is false) exactly when the
  major or the minor number is negative. The default constructor sets both to -1, which
  is unset, and the conversion is true exactly when both are non-negative.
\<close>

theorem version_set_iff_both_nonnegative:
  "(\<not> VersionNumber_bool v) = (sint (major v) < 0 \<or> sint (minor v) < 0)
 \<and> major VersionNumber_ctor = - 1 \<and> minor VersionNumber_ctor = - 1
 \<and> sint (major VersionNumber_ctor) = - 1 \<and> sint (minor VersionNumber_ctor) = - 1
 \<and> \<not> VersionNumber_bool VersionNumber_ctor
 \<and> VersionNumber_bool v = (0 \<le> sint (major v) \<and> 0 \<le> sint (minor v))"
  by (auto simp add: VersionNumber_bool_def VersionNumber_ctor_def)

subsection \<open>Configuration\<close>


section \<open>Properties of the modelled part\<close>

lemmas registry_defs =
  registry_after_def no_hooks_def EnableHook_def DisableHook_def remove_plugin_def

subsection \<open>The declared-items list\<close>

text \<open>
  C6. Adding the item \<open>x::y\<close> of kind \<open>FUNCTION\<close> twice leaves two entries for it at the end
  of \<open>BifItems()\<close>: the list only grows, and nothing removes a duplicate.
\<close>

theorem AddBifItem_twice:
  "BifItems (AddBifItem (AddBifItem p ''x::y'' FUNCTION) ''x::y'' FUNCTION)
     = BifItems p @ [BifItem_ctor ''x::y'' FUNCTION, BifItem_ctor ''x::y'' FUNCTION]
 \<and> length (filter (\<lambda>b. BifItem_GetID b = ''x::y'' \<and> BifItem_GetType b = FUNCTION)
       (BifItems (AddBifItem (AddBifItem p ''x::y'' FUNCTION) ''x::y'' FUNCTION)))
     = length (filter (\<lambda>b. BifItem_GetID b = ''x::y'' \<and> BifItem_GetType b = FUNCTION)
         (BifItems p)) + 2"
  by (simp add: BifItems_def AddBifItem_def BifItem_ctor_def BifItem_GetID_def BifItem_GetType_def)

subsection \<open>The registry keeps its order\<close>

lemma remove_plugin_absent: "p \<notin> snd ` set (remove_plugin p l)"
  by (auto simp: remove_plugin_def)

lemma own_entry_after_insert:
  "p \<notin> snd ` set l \<Longrightarrow> filter (\<lambda>e. snd e = p) (insert_by_priority (prio, p) l) = [(prio, p)]"
  by (induction l) (auto simp: filter_empty_conv)

lemma own_entry_after_remove: "filter (\<lambda>e. snd e = p) (remove_plugin p l) = []"
  by (simp add: remove_plugin_def)

lemma entries_for_EnabledHooks:
  "h \<noteq> NUM_HOOKS \<Longrightarrow>
   entries_for h (EnabledHooks reg p) = map (\<lambda>e. (h, fst e)) (filter (\<lambda>e. snd e = p) (reg h))"
  by (cases h) (simp_all add: entries_for_def EnabledHooks_def all_hooks_def filter_map comp_def)

lemma set_insert_by_priority: "set (insert_by_priority x l) = insert x (set l)"
  by (induction l) auto

lemma distinct_insert_by_priority:
  "distinct (map snd l) \<Longrightarrow> snd x \<notin> snd ` set l \<Longrightarrow> distinct (map snd (insert_by_priority x l))"
  by (induction l) (auto simp: set_insert_by_priority)

lemma sorted_insert_by_priority:
  "sorted_wrt (\<lambda>a b. sint (fst b) \<le> sint (fst a)) l \<Longrightarrow>
   sorted_wrt (\<lambda>a b. sint (fst b) \<le> sint (fst a)) (insert_by_priority x l)"
  by (induction l) (auto simp: set_insert_by_priority)

lemma distinct_remove_plugin: "distinct (map snd l) \<Longrightarrow> distinct (map snd (remove_plugin p l))"
  by (simp add: remove_plugin_def distinct_map_filter)

lemma sorted_remove_plugin: "sorted_wrt R l \<Longrightarrow> sorted_wrt R (remove_plugin p l)"
  by (simp add: remove_plugin_def sorted_wrt_filter)

lemma well_ordered_step:
  "(\<And>h. well_ordered (reg h)) \<Longrightarrow> well_ordered (apply_registry_op reg op h)"
  by (cases op)
    (auto simp: well_ordered_def EnableHook_def DisableHook_def sorted_insert_by_priority
      sorted_remove_plugin distinct_insert_by_priority distinct_remove_plugin remove_plugin_absent)

lemma well_ordered_foldl:
  "(\<And>h. well_ordered (reg h)) \<Longrightarrow> well_ordered (foldl apply_registry_op reg ops h)"
proof (induction ops arbitrary: reg h)
  case Nil
  then show ?case by simp
next
  case (Cons op ops)
  show ?case
    unfolding foldl_Cons
    by (rule Cons.IH) (rule well_ordered_step, rule Cons.prems)
qed

lemma well_ordered_registry_after: "well_ordered (registry_after ops h)"
  unfolding registry_after_def
  by (rule well_ordered_foldl) (simp add: no_hooks_def well_ordered_def)

lemma distinct_own_entries:
  "distinct (map snd l) \<Longrightarrow> length (filter (\<lambda>e. snd e = p) l) \<le> 1"
  by (induction l) (auto simp: filter_empty_conv image_iff)

lemma own_entry_unique:
  "distinct (map snd l) \<Longrightarrow> (q, m) \<in> set l \<Longrightarrow> filter (\<lambda>e. snd e = m) l = [(q, m)]"
  by (induction l) (auto simp: filter_empty_conv image_iff)

text \<open>
  C4. After \<open>EnableHook(H, p)\<close> the plugin's enabled hooks hold exactly one entry for \<open>H\<close>,
  with priority \<open>p\<close>; enabling \<open>H\<close> again with \<open>p2\<close> replaces it; \<open>DisableHook(H)\<close> removes it;
  and in no registry that enabling and disabling can reach does a plugin have two entries
  for one hook type. \<open>H\<close> is a hook type proper, not the enumeration's end marker.
\<close>

theorem one_entry_per_hook:
  assumes "H \<noteq> NUM_HOOKS"
  shows "entries_for H (EnabledHooks (EnableHook reg P H p) P) = [(H, p)]
   \<and> entries_for H (EnabledHooks (EnableHook (EnableHook reg P H p) P H p2) P) = [(H, p2)]
   \<and> entries_for H (EnabledHooks (DisableHook (EnableHook reg P H p) P H) P) = []
   \<and> length (entries_for H (EnabledHooks (registry_after ops) P)) \<le> 1"
proof -
  have one: "entries_for H (EnabledHooks (EnableHook r P H q) P) = [(H, q)]" for r q
    using assms
    by (simp add: entries_for_EnabledHooks EnableHook_def own_entry_after_insert remove_plugin_absent)
  have none: "entries_for H (EnabledHooks (DisableHook r P H) P) = []" for r
    using assms by (simp add: entries_for_EnabledHooks DisableHook_def own_entry_after_remove)
  have "distinct (map snd (registry_after ops H))"
    using well_ordered_registry_after [of ops H] by (simp add: well_ordered_def)
  then have "length (filter (\<lambda>e. snd e = P) (registry_after ops H)) \<le> 1"
    by (rule distinct_own_entries)
  then have "length (entries_for H (EnabledHooks (registry_after ops) P)) \<le> 1"
    using assms by (simp add: entries_for_EnabledHooks)
  with one none show ?thesis by simp
qed

text \<open>The theorem for plugin 1 and \<open>HOOK_CALL_FUNCTION\<close>, enabled at 10 and then at 5.\<close>

theorem one_entry_per_hook_witness:
  "HOOK_CALL_FUNCTION \<noteq> NUM_HOOKS
 \<and> entries_for HOOK_CALL_FUNCTION (EnabledHooks (EnableHook no_hooks 1 HOOK_CALL_FUNCTION 10) 1)
     = [(HOOK_CALL_FUNCTION, 10)]
 \<and> entries_for HOOK_CALL_FUNCTION
       (EnabledHooks (EnableHook (EnableHook no_hooks 1 HOOK_CALL_FUNCTION 10) 1 HOOK_CALL_FUNCTION 5) 1)
     = [(HOOK_CALL_FUNCTION, 5)]
 \<and> entries_for HOOK_CALL_FUNCTION
       (EnabledHooks (DisableHook (EnableHook no_hooks 1 HOOK_CALL_FUNCTION 10) 1 HOOK_CALL_FUNCTION) 1)
     = []
 \<and> length (entries_for HOOK_CALL_FUNCTION
       (EnabledHooks (registry_after [Enable 1 HOOK_CALL_FUNCTION 10, Enable 1 HOOK_CALL_FUNCTION 5]) 1))
     \<le> 1"
  using one_entry_per_hook [of HOOK_CALL_FUNCTION no_hooks 1 10 5
      "[Enable 1 HOOK_CALL_FUNCTION 10, Enable 1 HOOK_CALL_FUNCTION 5]"]
  by simp

subsection \<open>The dispatcher\<close>

lemma hook_calls_append: "hook_calls (xs @ ys) = hook_calls xs @ hook_calls ys"
  by (induction xs rule: hook_calls.induct) simp_all

lemma hook_calls_pre: "hook_calls (map (\<lambda>e. MetaHookPre_called (f e) h a) l) = []"
  by (induction l) simp_all

lemma hook_calls_post: "hook_calls (map (\<lambda>e. MetaHookPost_called (f e) h a r) l) = []"
  by (induction l) simp_all

lemma hook_calls_dispatch:
  "hook_calls (fst (dispatch reg impl c)) = hook_calls (fst (offer_in_order impl c (reg (hook_of c))))"
  by (simp add: dispatch_def Let_def hook_calls_append hook_calls_pre hook_calls_post)

text \<open>
  If \<open>P1\<close> stands in the list before any entry of \<open>P2\<close>, then \<open>P1\<close> is offered the occurrence
  before \<open>P2\<close> is, and \<open>P2\<close> is not offered it at all once \<open>P1\<close> has claimed it.
\<close>

lemma first_responder_order:
  "P1 \<in> set (takeWhile (\<lambda>q. q \<noteq> P2) (map snd l)) \<Longrightarrow>
   (P2 \<in> set (hook_calls (fst (offer_in_order impl c l))) \<longrightarrow>
      P1 \<in> set (takeWhile (\<lambda>q. q \<noteq> P2) (hook_calls (fst (offer_in_order impl c l)))))
   \<and> (offer (impl P1) c \<noteq> None \<longrightarrow> P2 \<notin> set (hook_calls (fst (offer_in_order impl c l))))"
proof (induction l)
  case Nil
  then show ?case by simp
next
  case (Cons e es)
  from Cons.prems have ne: "snd e \<noteq> P2"
    by (auto split: if_splits)
  show ?case
  proof (cases "offer (impl (snd e)) c")
    case (Some r)
    with ne show ?thesis by auto
  next
    case None
    show ?thesis
    proof (cases "P1 = snd e")
      case True
      with None ne show ?thesis by (simp add: Let_def)
    next
      case False
      with Cons.prems ne have "P1 \<in> set (takeWhile (\<lambda>q. q \<noteq> P2) (map snd es))"
        by simp
      from Cons.IH [OF this] None ne show ?thesis
        by (simp add: Let_def)
    qed
  qed
qed

lemma higher_priority_first:
  "well_ordered l \<Longrightarrow> (p1, P1) \<in> set l \<Longrightarrow> (p2, P2) \<in> set l \<Longrightarrow> sint p2 < sint p1 \<Longrightarrow>
   P1 \<in> set (takeWhile (\<lambda>q. q \<noteq> P2) (map snd l))"
proof (induction l)
  case Nil
  then show ?case by simp
next
  case (Cons e es)
  from Cons.prems(1) have tail: "well_ordered es"
    and le: "\<And>x. x \<in> set es \<Longrightarrow> sint (fst x) \<le> sint (fst e)"
    and fresh: "snd e \<notin> snd ` set es"
    by (auto simp: well_ordered_def)
  have ne: "snd e \<noteq> P2"
  proof
    assume eq: "snd e = P2"
    with fresh Cons.prems(3) have "e = (p2, P2)" by (auto simp: image_iff)
    with Cons.prems(2,4) have "(p1, P1) \<in> set es" by auto
    from le [OF this] \<open>e = (p2, P2)\<close> Cons.prems(4) show False by simp
  qed
  show ?case
  proof (cases "e = (p1, P1)")
    case True
    with ne show ?thesis by simp
  next
    case False
    with Cons.prems(2) have in1: "(p1, P1) \<in> set es" by simp
    from ne Cons.prems(3) have in2: "(p2, P2) \<in> set es" by auto
    from Cons.IH [OF tail in1 in2 Cons.prems(4)] ne show ?thesis by simp
  qed
qed

text \<open>
  C2. Two plugins \<open>P1\<close> and \<open>P2\<close> are enabled for the hook of an occurrence, \<open>P1\<close> with the
  higher priority (10 and 5 in the claim). Whenever \<open>P2\<close>'s hook method is called in the
  dispatch of the occurrence, \<open>P1\<close>'s was called before it; and when \<open>P1\<close>'s result claims
  the occurrence, \<open>P2\<close>'s hook method is not called.
\<close>

theorem higher_priority_called_first:
  assumes "(p1, P1) \<in> set (registry_after ops (hook_of c))"
    and "(p2, P2) \<in> set (registry_after ops (hook_of c))"
    and "sint p2 < sint p1"
  shows "(P2 \<in> set (hook_calls (fst (dispatch (registry_after ops) impl c))) \<longrightarrow>
            P1 \<in> set (takeWhile (\<lambda>q. q \<noteq> P2)
                   (hook_calls (fst (dispatch (registry_after ops) impl c)))))
       \<and> (offer (impl P1) c \<noteq> None \<longrightarrow>
            P2 \<notin> set (hook_calls (fst (dispatch (registry_after ops) impl c))))"
  unfolding hook_calls_dispatch
  by (rule first_responder_order)
    (rule higher_priority_first [OF well_ordered_registry_after assms])

text \<open>
  The theorem for plugin 1 at priority 10 and plugin 2 at priority 5 on
  \<open>HOOK_CALL_FUNCTION\<close>, plugin 2 enabled first. When only plugin 2 handles the call, the
  hook methods run in the order 1, 2; when plugin 1 handles it, plugin 2's does not run.
\<close>

theorem higher_priority_called_first_witness:
  "(10, 1) \<in> set (registry_after [Enable 2 HOOK_CALL_FUNCTION 5, Enable 1 HOOK_CALL_FUNCTION 10]
       (hook_of (CallFunction 100 200 300)))
 \<and> (5, 2) \<in> set (registry_after [Enable 2 HOOK_CALL_FUNCTION 5, Enable 1 HOOK_CALL_FUNCTION 10]
       (hook_of (CallFunction 100 200 300)))
 \<and> sint (5 :: cint) < sint (10 :: cint)
 \<and> hook_calls (fst (dispatch
       (registry_after [Enable 2 HOOK_CALL_FUNCTION 5, Enable 1 HOOK_CALL_FUNCTION 10])
       (\<lambda>p. \<lparr>HookLoadFile = (\<lambda>file ext. - 1), HookCallFunction = (\<lambda>fn parent args. (p = 2, 400)),
              HookQueueEvent = (\<lambda>ev. False)\<rparr>)
       (CallFunction 100 200 300))) = [1, 2]
 \<and> offer ((\<lambda>p. \<lparr>HookLoadFile = (\<lambda>file ext. - 1), HookCallFunction = (\<lambda>fn parent args. (p = 1, 400)),
              HookQueueEvent = (\<lambda>ev. False)\<rparr>) 1) (CallFunction 100 200 300) \<noteq> None
 \<and> 2 \<notin> set (hook_calls (fst (dispatch
       (registry_after [Enable 2 HOOK_CALL_FUNCTION 5, Enable 1 HOOK_CALL_FUNCTION 10])
       (\<lambda>p. \<lparr>HookLoadFile = (\<lambda>file ext. - 1), HookCallFunction = (\<lambda>fn parent args. (p = 1, 400)),
              HookQueueEvent = (\<lambda>ev. False)\<rparr>)
       (CallFunction 100 200 300))))"
  using higher_priority_called_first
      [of 10 1 "[Enable 2 HOOK_CALL_FUNCTION 5, Enable 1 HOOK_CALL_FUNCTION 10]"
        "CallFunction 100 200 300" 5 2
        "\<lambda>p. \<lparr>HookLoadFile = (\<lambda>file ext. - 1), HookCallFunction = (\<lambda>fn parent args. (p = 2, 400)),
              HookQueueEvent = (\<lambda>ev. False)\<rparr>"]
    higher_priority_called_first
      [of 10 1 "[Enable 2 HOOK_CALL_FUNCTION 5, Enable 1 HOOK_CALL_FUNCTION 10]"
        "CallFunction 100 200 300" 5 2
        "\<lambda>p. \<lparr>HookLoadFile = (\<lambda>file ext. - 1), HookCallFunction = (\<lambda>fn parent args. (p = 1, 400)),
              HookQueueEvent = (\<lambda>ev. False)\<rparr>"]
  by (simp add: registry_defs dispatch_def Let_def)

lemma pre_calls_to_append: "pre_calls_to m (xs @ ys) = pre_calls_to m xs @ pre_calls_to m ys"
  by (induction m xs rule: pre_calls_to.induct) simp_all

lemma post_calls_to_append: "post_calls_to m (xs @ ys) = post_calls_to m xs @ post_calls_to m ys"
  by (induction m xs rule: post_calls_to.induct) simp_all

lemma pre_calls_to_pre:
  "pre_calls_to m (map (\<lambda>e. MetaHookPre_called (snd e) h a) l) =
     map (\<lambda>e. (h, a)) (filter (\<lambda>e. snd e = m) l)"
  by (induction l) simp_all

lemma post_calls_to_post:
  "post_calls_to m (map (\<lambda>e. MetaHookPost_called (snd e) h a r) l) =
     map (\<lambda>e. (h, a, r)) (filter (\<lambda>e. snd e = m) l)"
  by (induction l) simp_all

lemma pre_calls_to_post: "pre_calls_to m (map (\<lambda>e. MetaHookPost_called (f e) h a r) l) = []"
  by (induction l) simp_all

lemma post_calls_to_pre: "post_calls_to m (map (\<lambda>e. MetaHookPre_called (f e) h a) l) = []"
  by (induction l) simp_all

text \<open>
  C3. An occurrence of a hook for which no plugin is enabled: the dispatcher calls no hook
  method, and the result is the default one. Every plugin enabled for \<open>META_HOOK_PRE\<close> gets
  exactly one \<open>MetaHookPre\<close> call, for this hook and its arguments, and every plugin enabled
  for \<open>META_HOOK_POST\<close> exactly one \<open>MetaHookPost\<close> call, carrying the default result (of type
  VOID for a hook without a result).
\<close>

theorem meta_hooks_fire_without_plugins:
  assumes "registry_after ops (hook_of c) = []"
  shows "fst (dispatch (registry_after ops) impl c) =
           map (\<lambda>e. MetaHookPre_called (snd e) (hook_of c) (hook_args c))
             (registry_after ops META_HOOK_PRE)
           @ map (\<lambda>e. MetaHookPost_called (snd e) (hook_of c) (hook_args c) (default_result c))
             (registry_after ops META_HOOK_POST)
       \<and> snd (dispatch (registry_after ops) impl c) = default_result c
       \<and> ((q, m) \<in> set (registry_after ops META_HOOK_PRE) \<longrightarrow>
            pre_calls_to m (fst (dispatch (registry_after ops) impl c)) =
              [(hook_of c, hook_args c)])
       \<and> ((q', m') \<in> set (registry_after ops META_HOOK_POST) \<longrightarrow>
            post_calls_to m' (fst (dispatch (registry_after ops) impl c)) =
              [(hook_of c, hook_args c, default_result c)])"
proof -
  have d: "distinct (map snd (registry_after ops h))" for h
    using well_ordered_registry_after [of ops h] by (simp add: well_ordered_def)
  have trace: "dispatch (registry_after ops) impl c =
      (map (\<lambda>e. MetaHookPre_called (snd e) (hook_of c) (hook_args c))
         (registry_after ops META_HOOK_PRE)
       @ map (\<lambda>e. MetaHookPost_called (snd e) (hook_of c) (hook_args c) (default_result c))
         (registry_after ops META_HOOK_POST),
       default_result c)"
    using assms by (simp add: dispatch_def Let_def)
  have pre: "pre_calls_to m (fst (dispatch (registry_after ops) impl c)) =
      [(hook_of c, hook_args c)]"
    if "(q, m) \<in> set (registry_after ops META_HOOK_PRE)"
    unfolding trace
    by (simp add: pre_calls_to_append pre_calls_to_pre pre_calls_to_post
        own_entry_unique [OF d that])
  have post: "post_calls_to m' (fst (dispatch (registry_after ops) impl c)) =
      [(hook_of c, hook_args c, default_result c)]"
    if "(q', m') \<in> set (registry_after ops META_HOOK_POST)"
    unfolding trace
    by (simp add: post_calls_to_append post_calls_to_pre post_calls_to_post
        own_entry_unique [OF d that])
  from pre post show ?thesis
    unfolding trace by simp
qed

text \<open>
  The theorem for the draining of the event queue when plugin 7 is enabled for both meta
  hooks and plugin 8 only for \<open>HOOK_QUEUE_EVENT\<close>: plugin 7 sees one call of each meta hook,
  the second one with a result of type \<open>VOID\<close>.
\<close>

theorem meta_hooks_fire_without_plugins_witness:
  "registry_after [Enable 7 META_HOOK_PRE 0, Enable 8 HOOK_QUEUE_EVENT 0, Enable 7 META_HOOK_POST 0]
     (hook_of DrainEvents) = []
 \<and> (0, 7) \<in> set (registry_after
       [Enable 7 META_HOOK_PRE 0, Enable 8 HOOK_QUEUE_EVENT 0, Enable 7 META_HOOK_POST 0] META_HOOK_PRE)
 \<and> (0, 7) \<in> set (registry_after
       [Enable 7 META_HOOK_PRE 0, Enable 8 HOOK_QUEUE_EVENT 0, Enable 7 META_HOOK_POST 0] META_HOOK_POST)
 \<and> dispatch (registry_after
       [Enable 7 META_HOOK_PRE 0, Enable 8 HOOK_QUEUE_EVENT 0, Enable 7 META_HOOK_POST 0])
      (\<lambda>p. \<lparr>HookLoadFile = (\<lambda>file ext. 1), HookCallFunction = (\<lambda>fn parent args. (True, 400)),
             HookQueueEvent = (\<lambda>ev. True)\<rparr>) DrainEvents
    = ([MetaHookPre_called 7 HOOK_DRAIN_EVENTS [],
        MetaHookPost_called 7 HOOK_DRAIN_EVENTS [] HookArgument_default], HookArgument_default)
 \<and> pre_calls_to 7 (fst (dispatch (registry_after
       [Enable 7 META_HOOK_PRE 0, Enable 8 HOOK_QUEUE_EVENT 0, Enable 7 META_HOOK_POST 0])
      (\<lambda>p. \<lparr>HookLoadFile = (\<lambda>file ext. 1), HookCallFunction = (\<lambda>fn parent args. (True, 400)),
             HookQueueEvent = (\<lambda>ev. True)\<rparr>) DrainEvents))
    = [(HOOK_DRAIN_EVENTS, [])]
 \<and> post_calls_to 7 (fst (dispatch (registry_after
       [Enable 7 META_HOOK_PRE 0, Enable 8 HOOK_QUEUE_EVENT 0, Enable 7 META_HOOK_POST 0])
      (\<lambda>p. \<lparr>HookLoadFile = (\<lambda>file ext. 1), HookCallFunction = (\<lambda>fn parent args. (True, 400)),
             HookQueueEvent = (\<lambda>ev. True)\<rparr>) DrainEvents))
    = [(HOOK_DRAIN_EVENTS, [], HookArgument_default)]
 \<and> type HookArgument_default = VOID"
  using meta_hooks_fire_without_plugins
      [of "[Enable 7 META_HOOK_PRE 0, Enable 8 HOOK_QUEUE_EVENT 0, Enable 7 META_HOOK_POST 0]"
        DrainEvents
        "\<lambda>p. \<lparr>HookLoadFile = (\<lambda>file ext. 1), HookCallFunction = (\<lambda>fn parent args. (True, 400)),
             HookQueueEvent = (\<lambda>ev. True)\<rparr>" 0 7 0 7]
  by (simp add: registry_defs dispatch_def Let_def HookArgument_default_def)

end
